theory Spec2Isabelle
  imports Complex_Main "HOL-Library.Sublist" "HOL-Library.Multiset"
begin

section \<open>Quality scorer for gaming forum solutions: the embedding\<close>

text \<open>
  A shallow embedding of \<^verbatim>\<open>quality_scorer.py\<close>: the dataclass \<^verbatim>\<open>SolutionMetrics\<close>, the six
  factor scorers and \<^verbatim>\<open>calculate_score\<close> of \<^verbatim>\<open>QualityScorer\<close>, its \<^verbatim>\<open>analyze_content\<close> and
  \<^verbatim>\<open>compare_solutions\<close>, and \<^verbatim>\<open>_dict_to_metrics\<close> and \<^verbatim>\<open>rank_solutions\<close> of \<^verbatim>\<open>SolutionRanker\<close>.

  Conventions of the embedding.
  \<^item> Python \<^verbatim>\<open>int\<close> is \<^typ>\<open>int\<close>; the fields of the dataclass are annotated \<^verbatim>\<open>int\<close> and nothing
    in the code rejects a negative value, so none is excluded by the types here.
  \<^item> Python \<^verbatim>\<open>float\<close> is idealised as \<^typ>\<open>real\<close>: products and sums are exact. The sub-scores
    are integers; floats arise only in the vote ratio, the weighted total and its multipliers.
  \<^item> Python \<^verbatim>\<open>str\<close> is \<^typ>\<open>string\<close> and is read as ASCII text: \<^verbatim>\<open>lower()\<close>, whitespace and
    digits are those of ASCII.
  \<^item> An exception is a value \<open>Inl e\<close> of the result type \<open>error + 'a\<close>; a function whose body
    has no operation that can raise on its typed arguments returns its value directly.
  \<^item> \<^verbatim>\<open>datetime.now()\<close> reads the system clock. The reading is the argument \<open>now\<close> of the
    functions that perform it (microseconds, a naive local time); in the source it is not a
    parameter of any function.
\<close>

subsection \<open>Strings\<close>

definition lower_char :: "char \<Rightarrow> char" where
  "lower_char c =
     (case map_of (zip ''ABCDEFGHIJKLMNOPQRSTUVWXYZ'' ''abcdefghijklmnopqrstuvwxyz'') c of
        None \<Rightarrow> c
      | Some d \<Rightarrow> d)"

text \<open>\<^verbatim>\<open>s.lower()\<close>\<close>

definition str_lower :: "string \<Rightarrow> string" where
  "str_lower s = map lower_char s"

text \<open>\<^verbatim>\<open>key in s\<close> on strings: \<open>key\<close> occurs in \<open>s\<close> as a contiguous substring.\<close>

fun py_in :: "string \<Rightarrow> string \<Rightarrow> bool" where
  "py_in key [] = (key = [])"
| "py_in key (c # cs) = (prefix key (c # cs) \<or> py_in key cs)"

subsection \<open>Errors, dates and the metrics record\<close>

datatype error = ZeroDivisionError | TypeError | ValueError

text \<open>
  A \<^verbatim>\<open>datetime\<close> is naive (no \<^verbatim>\<open>tzinfo\<close>) or aware; the number is its position on the time
  line in microseconds. A \<^verbatim>\<open>timedelta\<close> is a number of microseconds. Python's subtraction
  of two datetimes raises \<^verbatim>\<open>TypeError\<close> when exactly one of them is aware.
\<close>

datatype datetime = Naive int | Aware int

type_synonym timedelta = int

fun datetime_sub :: "datetime \<Rightarrow> datetime \<Rightarrow> error + timedelta" where
  "datetime_sub (Naive a) (Naive b) = Inr (a - b)"
| "datetime_sub (Aware a) (Aware b) = Inr (a - b)"
| "datetime_sub (Naive a) (Aware b) = Inl TypeError"
| "datetime_sub (Aware a) (Naive b) = Inl TypeError"

text \<open>\<^verbatim>\<open>timedelta(days=n)\<close>\<close>

definition days :: "int \<Rightarrow> timedelta" where
  "days n = n * 86400000000"

record SolutionMetrics =
  author_reputation :: int
  author_post_count :: int
  author_badges :: "string list"
  upvotes :: int
  downvotes :: int
  reply_count :: int
  view_count :: int
  word_count :: int
  has_steps :: bool
  has_screenshots :: bool
  has_video :: bool
  code_blocks :: int
  confirmed_working :: int
  contradicted :: bool
  is_solved :: bool
  dev_response :: bool
  mod_endorsed :: bool
  post_date :: "datetime option"
  last_updated :: "datetime option"
  game_version :: "string option"
  platform :: string

text \<open>\<^verbatim>\<open>SolutionMetrics()\<close>: every field at its default.\<close>

definition default_metrics :: SolutionMetrics where
  "default_metrics =
     \<lparr>author_reputation = 0, author_post_count = 0, author_badges = [],
      upvotes = 0, downvotes = 0, reply_count = 0, view_count = 0,
      word_count = 0, has_steps = False, has_screenshots = False, has_video = False,
      code_blocks = 0, confirmed_working = 0, contradicted = False, is_solved = False,
      dev_response = False, mod_endorsed = False,
      post_date = None, last_updated = None, game_version = None,
      platform = ''unknown''\<rparr>"

subsection \<open>The configuration tables\<close>

text \<open>Python dictionaries keep insertion order; the tables are association lists in that order.\<close>

definition PLATFORM_TRUST :: "(string \<times> real) list" where
  "PLATFORM_TRUST =
     [(''steam'', 1.1), (''reddit'', 1.0), (''gamefaqs'', 0.95), (''discord'', 1.05),
      (''youtube'', 0.9), (''wiki'', 0.85), (''forum'', 0.95)]"

definition badge_scores :: "(string \<times> int) list" where
  "badge_scores =
     [(''moderator'', 20), (''developer'', 25), (''verified'', 15), (''helper'', 10),
      (''veteran'', 10), (''expert'', 15), (''mvp'', 20), (''trusted'', 15)]"

subsection \<open>The six factor scorers\<close>

text \<open>
  The inner loop of \<^verbatim>\<open>_score_author_credibility\<close> over \<^verbatim>\<open>badge_scores.items()\<close>: the first key
  found in the lowered badge adds its points and \<^verbatim>\<open>break\<close> leaves the loop.
\<close>

fun badge_key_loop :: "(string \<times> int) list \<Rightarrow> string \<Rightarrow> int \<Rightarrow> int" where
  "badge_key_loop [] badge_lower score = score"
| "badge_key_loop ((key, points) # rest) badge_lower score =
     (if py_in key badge_lower then score + points
      else badge_key_loop rest badge_lower score)"

text \<open>The outer loop \<^verbatim>\<open>for badge in metrics.author_badges\<close>.\<close>

fun badge_loop :: "string list \<Rightarrow> int \<Rightarrow> int" where
  "badge_loop [] score = score"
| "badge_loop (badge # badges) score =
     badge_loop badges (badge_key_loop badge_scores (str_lower badge) score)"

definition reputation_points :: "int \<Rightarrow> int" where
  "reputation_points r =
     (if r > 10000 then 40
      else if r > 5000 then 35
      else if r > 1000 then 30
      else if r > 500 then 20
      else if r > 100 then 10
      else 0)"

definition post_count_points :: "int \<Rightarrow> int" where
  "post_count_points n =
     (if n > 1000 then 20
      else if n > 500 then 15
      else if n > 100 then 10
      else if n > 50 then 5
      else 0)"

definition score_author_credibility :: "SolutionMetrics \<Rightarrow> int" where
  "score_author_credibility metrics =
     (let score = 0;
          score = score + reputation_points (author_reputation metrics);
          score = score + post_count_points (author_post_count metrics);
          score = badge_loop (author_badges metrics) score
      in min score 100)"

text \<open>Python's true division \<^verbatim>\<open>a / b\<close> of two integers.\<close>

definition py_truediv :: "int \<Rightarrow> int \<Rightarrow> error + real" where
  "py_truediv a b = (if b = 0 then Inl ZeroDivisionError else Inr (real_of_int a / real_of_int b))"

definition ratio_points :: "real \<Rightarrow> int" where
  "ratio_points ratio =
     (if ratio > 0.95 then 30
      else if ratio > 0.85 then 25
      else if ratio > 0.75 then 20
      else if ratio > 0.65 then 15
      else 10)"

definition upvote_points :: "int \<Rightarrow> int" where
  "upvote_points u =
     (if u > 100 then 20
      else if u > 50 then 15
      else if u > 20 then 10
      else if u > 10 then 5
      else 0)"

definition reply_points :: "int \<Rightarrow> int" where
  "reply_points n =
     (if n > 20 then 15
      else if n > 10 then 10
      else if n > 5 then 5
      else 0)"

definition view_points :: "int \<Rightarrow> int" where
  "view_points n =
     (if n > 10000 then 5
      else if n > 1000 then 3
      else 0)"

text \<open>
  The first block of \<^verbatim>\<open>_score_community_validation\<close>: the points of the vote ratio, computed
  only when \<^verbatim>\<open>upvotes > 0\<close>.
\<close>

definition vote_ratio_block :: "SolutionMetrics \<Rightarrow> error + int" where
  "vote_ratio_block metrics =
     (if upvotes metrics > 0 then
        (case py_truediv (upvotes metrics) (max 1 (upvotes metrics + downvotes metrics)) of
           Inl e \<Rightarrow> Inl e
         | Inr ratio \<Rightarrow> Inr (ratio_points ratio))
      else Inr 0)"

definition score_community_validation :: "SolutionMetrics \<Rightarrow> error + int" where
  "score_community_validation metrics =
     (case vote_ratio_block metrics of
        Inl e \<Rightarrow> Inl e
      | Inr score \<Rightarrow>
          (let score = score + upvote_points (upvotes metrics);
               score = score + min (confirmed_working metrics * 10) 30;
               score = score + reply_points (reply_count metrics);
               score = score + view_points (view_count metrics)
           in Inr (min score 100)))"

definition length_points :: "int \<Rightarrow> int" where
  "length_points w =
     (if 100 \<le> w \<and> w \<le> 500 then 15
      else if 50 \<le> w \<and> w < 100 then 10
      else if 500 < w \<and> w \<le> 1000 then 10
      else if w > 1000 then 5
      else 0)"

definition score_content_quality :: "SolutionMetrics \<Rightarrow> int" where
  "score_content_quality metrics =
     (let score = 0;
          score = (if has_steps metrics then score + 25 else score);
          score = (if has_screenshots metrics then score + 20 else score);
          score = (if has_video metrics then score + 15 else score);
          score = (if code_blocks metrics > 0 then score + min (code_blocks metrics * 5) 15
                   else score);
          score = score + length_points (word_count metrics);
          score = (if is_solved metrics then score + 10 else score)
      in min score 100)"

text \<open>The value of \<^verbatim>\<open>score\<close> in \<^verbatim>\<open>_score_official_endorsement\<close> before \<^verbatim>\<open>min(score, 100)\<close>.\<close>

definition official_endorsement_sum :: "SolutionMetrics \<Rightarrow> int" where
  "official_endorsement_sum metrics =
     (let score = 0;
          score = (if dev_response metrics then score + 50 else score);
          score = (if mod_endorsed metrics then score + 30 else score);
          score = (if is_solved metrics then score + 20 else score)
      in score)"

definition score_official_endorsement :: "SolutionMetrics \<Rightarrow> int" where
  "score_official_endorsement metrics = min (official_endorsement_sum metrics) 100"

definition age_points :: "timedelta \<Rightarrow> int" where
  "age_points age =
     (if age < days 7 then 100
      else if age < days 30 then 90
      else if age < days 90 then 75
      else if age < days 180 then 60
      else if age < days 365 then 40
      else 20)"

text \<open>
  \<^verbatim>\<open>_score_recency\<close>. The argument \<open>now\<close> is the value that \<^verbatim>\<open>datetime.now()\<close> returns when the
  body calls it; the call is made only when \<^verbatim>\<open>post_date\<close> is present.
\<close>

definition score_recency :: "int \<Rightarrow> SolutionMetrics \<Rightarrow> error + int" where
  "score_recency now metrics =
     (case post_date metrics of
        None \<Rightarrow> Inr 50
      | Some d \<Rightarrow>
          (case datetime_sub (Naive now) d of
             Inl e \<Rightarrow> Inl e
           | Inr age \<Rightarrow> Inr (age_points age)))"

definition detail_words_points :: "int \<Rightarrow> int" where
  "detail_words_points w =
     (if w > 200 then 30
      else if w > 100 then 20
      else if w > 50 then 10
      else 0)"

definition score_detail_level :: "SolutionMetrics \<Rightarrow> int" where
  "score_detail_level metrics =
     (let score = 0;
          score = score + detail_words_points (word_count metrics);
          score = (if has_steps metrics then score + 30 else score);
          score = (if has_screenshots metrics \<or> has_video metrics then score + 20 else score);
          score = (if code_blocks metrics > 0 then score + 20 else score)
      in min score 100)"

subsection \<open>The overall score\<close>

text \<open>\<^verbatim>\<open>self.PLATFORM_TRUST.get(metrics.platform.lower(), 1.0)\<close>\<close>

definition platform_mult :: "SolutionMetrics \<Rightarrow> real" where
  "platform_mult metrics =
     (case map_of PLATFORM_TRUST (str_lower (platform metrics)) of
        None \<Rightarrow> 1.0
      | Some v \<Rightarrow> v)"

text \<open>
  The value of \<^verbatim>\<open>total_score\<close> in \<^verbatim>\<open>calculate_score\<close> after the platform multiplier and before
  the penalty: the six scorers are called in the order of the \<^verbatim>\<open>scores\<close> dictionary, and the
  weighted sum runs over its keys in that order.
\<close>

definition platform_total :: "int \<Rightarrow> SolutionMetrics \<Rightarrow> error + real" where
  "platform_total now metrics =
     (let ac = score_author_credibility metrics in
      case score_community_validation metrics of
        Inl e \<Rightarrow> Inl e
      | Inr cv \<Rightarrow>
          (let cq = score_content_quality metrics;
               oe = score_official_endorsement metrics in
           case score_recency now metrics of
             Inl e \<Rightarrow> Inl e
           | Inr rc \<Rightarrow>
               (let dl = score_detail_level metrics;
                    total_score =
                      0 + real_of_int ac * 0.20 + real_of_int cv * 0.25 + real_of_int cq * 0.20
                        + real_of_int oe * 0.15 + real_of_int rc * 0.10 + real_of_int dl * 0.10;
                    total_score = total_score * platform_mult metrics
                in Inr total_score)))"

definition calculate_score :: "int \<Rightarrow> SolutionMetrics \<Rightarrow> error + real" where
  "calculate_score now metrics =
     (case platform_total now metrics of
        Inl e \<Rightarrow> Inl e
      | Inr total_score \<Rightarrow>
          (let total_score = (if contradicted metrics then total_score * 0.8 else total_score)
           in Inr (min (max total_score 0) 100)))"

subsection \<open>Content analysis\<close>

text \<open>
  A small regular-expression matcher for the three step patterns of \<^verbatim>\<open>analyze_content\<close>:
  literals, \<^verbatim>\<open>\d\<close>, \<^verbatim>\<open>.\<close> (any character but a newline), sequence, alternative and star,
  matched through derivatives. The flag is \<^verbatim>\<open>re.IGNORECASE\<close>.
\<close>

datatype regex = Zero | One | Lit char | Digit | Dot | Alt regex regex | Seq regex regex | Star regex

definition is_digit :: "char \<Rightarrow> bool" where
  "is_digit c = (c \<in> set ''0123456789'')"

text \<open>The ASCII characters that \<^verbatim>\<open>str.split()\<close> treats as whitespace.\<close>

definition is_space :: "char \<Rightarrow> bool" where
  "is_space c =
     (c \<in> set [CHR 0x09, CHR 0x0A, CHR 0x0B, CHR 0x0C, CHR 0x0D,
                CHR 0x1C, CHR 0x1D, CHR 0x1E, CHR 0x1F, CHR 0x20])"

definition char_matches :: "bool \<Rightarrow> char \<Rightarrow> char \<Rightarrow> bool" where
  "char_matches ignorecase p c = (if ignorecase then lower_char p = lower_char c else p = c)"

fun nullable :: "regex \<Rightarrow> bool" where
  "nullable Zero = False"
| "nullable One = True"
| "nullable (Lit p) = False"
| "nullable Digit = False"
| "nullable Dot = False"
| "nullable (Alt r s) = (nullable r \<or> nullable s)"
| "nullable (Seq r s) = (nullable r \<and> nullable s)"
| "nullable (Star r) = True"

fun deriv :: "bool \<Rightarrow> char \<Rightarrow> regex \<Rightarrow> regex" where
  "deriv ic c Zero = Zero"
| "deriv ic c One = Zero"
| "deriv ic c (Lit p) = (if char_matches ic p c then One else Zero)"
| "deriv ic c Digit = (if is_digit c then One else Zero)"
| "deriv ic c Dot = (if c = CHR 0x0A then Zero else One)"
| "deriv ic c (Alt r s) = Alt (deriv ic c r) (deriv ic c s)"
| "deriv ic c (Seq r s) =
     (if nullable r then Alt (Seq (deriv ic c r) s) (deriv ic c s) else Seq (deriv ic c r) s)"
| "deriv ic c (Star r) = Seq (deriv ic c r) (Star r)"

text \<open>Some prefix of the text matches the expression.\<close>

fun match_here :: "bool \<Rightarrow> regex \<Rightarrow> string \<Rightarrow> bool" where
  "match_here ic r [] = nullable r"
| "match_here ic r (c # cs) = (nullable r \<or> match_here ic (deriv ic c r) cs)"

text \<open>\<^verbatim>\<open>re.search(pattern, text, flags)\<close> as a truth value: a match starts somewhere.\<close>

fun re_search :: "bool \<Rightarrow> regex \<Rightarrow> string \<Rightarrow> bool" where
  "re_search ic r [] = nullable r"
| "re_search ic r (c # cs) = (match_here ic r (c # cs) \<or> re_search ic r cs)"

fun literal :: "string \<Rightarrow> regex" where
  "literal [] = One"
| "literal (c # cs) = Seq (Lit c) (literal cs)"

text \<open>\<^verbatim>\<open>\d+\.\<close>, \<^verbatim>\<open>Step \d+\<close> and \<^verbatim>\<open>First.*Second.*Third\<close>\<close>

definition step_patterns :: "regex list" where
  "step_patterns =
     [Seq (Seq Digit (Star Digit)) (Lit CHR ''.''),
      Seq (literal ''Step '') (Seq Digit (Star Digit)),
      Seq (literal ''First'')
        (Seq (Star Dot) (Seq (literal ''Second'') (Seq (Star Dot) (literal ''Third''))))]"

fun lit_prefix :: "bool \<Rightarrow> string \<Rightarrow> string \<Rightarrow> bool" where
  "lit_prefix ic [] s = True"
| "lit_prefix ic (p # ps) [] = False"
| "lit_prefix ic (p # ps) (c # cs) = (char_matches ic p c \<and> lit_prefix ic ps cs)"

text \<open>
  The scan of \<^verbatim>\<open>re.findall\<close> for a non-empty pattern without metacharacters: matches are
  taken from left to right and do not overlap; \<open>skip\<close> is the number of characters of the
  last match still to pass.
\<close>

fun findall_scan :: "bool \<Rightarrow> string \<Rightarrow> nat \<Rightarrow> string \<Rightarrow> nat" where
  "findall_scan ic pat skip [] = 0"
| "findall_scan ic pat (Suc k) (c # cs) = findall_scan ic pat k cs"
| "findall_scan ic pat 0 (c # cs) =
     (if lit_prefix ic pat (c # cs) then 1 + findall_scan ic pat (length pat - 1) cs
      else findall_scan ic pat 0 cs)"

text \<open>\<^verbatim>\<open>len(re.findall(pat, text, flags))\<close>; the empty pattern matches at every position.\<close>

definition findall_count :: "bool \<Rightarrow> string \<Rightarrow> string \<Rightarrow> nat" where
  "findall_count ic pat s = (if pat = [] then length s + 1 else findall_scan ic pat 0 s)"

text \<open>\<^verbatim>\<open>content.split()\<close>: the maximal runs of characters that are not whitespace.\<close>

fun split_loop :: "string \<Rightarrow> string \<Rightarrow> string list" where
  "split_loop cur [] = (if cur = [] then [] else [rev cur])"
| "split_loop cur (c # cs) =
     (if is_space c then (if cur = [] then split_loop [] cs else rev cur # split_loop [] cs)
      else split_loop (c # cur) cs)"

definition py_split :: "string \<Rightarrow> string list" where
  "py_split s = split_loop [] s"

record analysis =
  a_word_count :: int
  a_has_steps :: bool
  a_has_screenshots :: bool
  a_has_video :: bool
  a_code_blocks :: int
  a_confirmed_working :: int
  a_has_warnings :: bool

definition image_indicators :: "string list" where
  "image_indicators = [''screenshot'', ''image'', ''.png'', ''.jpg'', ''![''] "

definition video_indicators :: "string list" where
  "video_indicators = [''video'', ''youtube'', ''youtu.be'', ''twitch'']"

definition confirmation_phrases :: "string list" where
  "confirmation_phrases =
     [''this worked'', ''works for me'', ''can confirm'',
      ''solved my problem'', ''fixed it'', ''thanks this helped'']"

definition warning_phrases :: "string list" where
  "warning_phrases =
     [''be careful'', ''warning'', ''caution'', ''important'',
      ''make sure'', ''don'' @ [CHR 0x27] @ ''t forget'', ''backup'']"

definition analyze_content :: "string \<Rightarrow> analysis" where
  "analyze_content content =
     \<lparr>a_word_count = int (length (py_split content)),
      a_has_steps = list_ex (\<lambda>pattern. re_search True pattern content) step_patterns,
      a_has_screenshots = list_ex (\<lambda>ind. py_in ind (str_lower content)) image_indicators,
      a_has_video = list_ex (\<lambda>ind. py_in ind (str_lower content)) video_indicators,
      a_code_blocks = int (findall_count False ''```'' content),
      a_confirmed_working =
        foldl (\<lambda>n phrase. n + int (findall_count True phrase content)) 0 confirmation_phrases,
      a_has_warnings = list_ex (\<lambda>phrase. py_in phrase (str_lower content)) warning_phrases\<rparr>"

subsection \<open>Scoring and ranking a batch\<close>

text \<open>
  An entry of the list \<^verbatim>\<open>ranked\<close>: the keys \<^verbatim>\<open>score\<close>, \<^verbatim>\<open>metrics\<close> and \<^verbatim>\<open>content_preview\<close> of
  the dictionary that \<^verbatim>\<open>compare_solutions\<close> appends. The keys \<^verbatim>\<open>strengths\<close> and \<^verbatim>\<open>weaknesses\<close>,
  and the labels that \<^verbatim>\<open>rank_solutions\<close> adds afterwards, are texts derived from the entry;
  they feed neither the score nor the order and are not part of the embedding.
\<close>

record ranked_entry =
  entry_score :: real
  entry_metrics :: SolutionMetrics
  entry_content_preview :: string

text \<open>The five assignments of \<^verbatim>\<open>compare_solutions\<close> that update the metrics from the analysis.\<close>

definition update_metrics :: "SolutionMetrics \<Rightarrow> analysis \<Rightarrow> SolutionMetrics" where
  "update_metrics metrics content_analysis =
     (let metrics = metrics\<lparr>word_count := a_word_count content_analysis\<rparr>;
          metrics = metrics\<lparr>has_steps := a_has_steps content_analysis\<rparr>;
          metrics = metrics\<lparr>has_screenshots := a_has_screenshots content_analysis\<rparr>;
          metrics = metrics\<lparr>has_video := a_has_video content_analysis\<rparr>;
          metrics = metrics\<lparr>code_blocks := a_code_blocks content_analysis\<rparr>
      in metrics)"

definition content_preview :: "string \<Rightarrow> string" where
  "content_preview content =
     (if length content > 200 then take 200 content @ ''...'' else content)"

text \<open>
  The loop of \<^verbatim>\<open>compare_solutions\<close> over the pairs. Each iteration may read the clock once
  (inside \<^verbatim>\<open>_score_recency\<close>); \<open>clock i\<close> is the reading during the iteration for the pair at
  position \<open>i\<close>. An exception raised by \<^verbatim>\<open>calculate_score\<close> leaves the loop and the function.
  The pairs are modelled as values: the caller passes a separate metrics object for each.
\<close>

fun score_loop :: "(nat \<Rightarrow> int) \<Rightarrow> nat \<Rightarrow> (SolutionMetrics \<times> string) list \<Rightarrow> error + ranked_entry list" where
  "score_loop clock i [] = Inr []"
| "score_loop clock i ((metrics, content) # solutions) =
     (let content_analysis = analyze_content content;
          metrics = update_metrics metrics content_analysis
      in case calculate_score (clock i) metrics of
           Inl e \<Rightarrow> Inl e
         | Inr score \<Rightarrow>
             (case score_loop clock (Suc i) solutions of
                Inl e \<Rightarrow> Inl e
              | Inr ranked \<Rightarrow>
                  Inr (\<lparr>entry_score = score, entry_metrics = metrics,
                        entry_content_preview = content_preview content\<rparr> # ranked)))"

text \<open>
  \<^verbatim>\<open>xs.sort(key=key, reverse=True)\<close>: Python's sort is stable, and with \<^verbatim>\<open>reverse=True\<close> it
  orders by descending key while elements with equal keys keep their original order. That is
  the stable insertion sort of the library on the negated key.
\<close>

definition py_sort_reverse :: "('a \<Rightarrow> real) \<Rightarrow> 'a list \<Rightarrow> 'a list" where
  "py_sort_reverse key xs = sort_key (\<lambda>x. - key x) xs"

definition compare_solutions :: "(nat \<Rightarrow> int) \<Rightarrow> (SolutionMetrics \<times> string) list \<Rightarrow> error + ranked_entry list" where
  "compare_solutions clock solutions =
     (case score_loop clock 0 solutions of
        Inl e \<Rightarrow> Inl e
      | Inr ranked \<Rightarrow> Inr (py_sort_reverse entry_score ranked))"

subsection \<open>From an external record to the metrics\<close>

text \<open>
  The dictionary that \<^verbatim>\<open>rank_solutions\<close> receives, with the keys that the code reads; \<open>None\<close> is
  an absent key. The value under \<^verbatim>\<open>date\<close> is a string or a \<^verbatim>\<open>datetime\<close>, the two cases of the
  \<^verbatim>\<open>isinstance\<close> test; the other values have the types of the fields they are copied to.
\<close>

datatype date_value = DateStr string | DateObj datetime

record solution_dict =
  k_author_reputation :: "int option"
  k_upvotes :: "int option"
  k_score :: "int option"
  k_downvotes :: "int option"
  k_replies :: "int option"
  k_is_solved :: "bool option"
  k_platform :: "string option"
  k_has_dev_response :: "bool option"
  k_author_badges :: "string list option"
  k_date :: "date_value option"
  k_content :: "string option"

text \<open>
  One round of the loop over \<^verbatim>\<open>field_mapping.items()\<close>: when the key is in the dictionary,
  \<^verbatim>\<open>setattr\<close> stores its value in the field of the metrics.
\<close>

definition copy_field :: "'a option \<Rightarrow> ('a \<Rightarrow> SolutionMetrics \<Rightarrow> SolutionMetrics) \<Rightarrow> SolutionMetrics \<Rightarrow> SolutionMetrics" where
  "copy_field entry setattr metrics =
     (case entry of None \<Rightarrow> metrics | Some v \<Rightarrow> setattr v metrics)"

text \<open>
  \<^verbatim>\<open>_dict_to_metrics\<close>. The copies follow the order of \<^verbatim>\<open>field_mapping\<close>, so \<^verbatim>\<open>score\<close> overrides
  \<^verbatim>\<open>upvotes\<close>. \<open>fromisoformat\<close> is \<^verbatim>\<open>datetime.fromisoformat\<close> of the standard library, a
  parameter here; \<open>Inl\<close> is the exception it raises on a string it cannot parse, which the
  bare \<^verbatim>\<open>except\<close> catches.
\<close>

definition dict_to_metrics :: "(string \<Rightarrow> error + datetime) \<Rightarrow> solution_dict \<Rightarrow> SolutionMetrics" where
  "dict_to_metrics fromisoformat solution_dict =
     (let metrics = default_metrics;
          metrics = copy_field (k_author_reputation solution_dict)
                      (\<lambda>v m. m\<lparr>author_reputation := v\<rparr>) metrics;
          metrics = copy_field (k_upvotes solution_dict) (\<lambda>v m. m\<lparr>upvotes := v\<rparr>) metrics;
          metrics = copy_field (k_score solution_dict) (\<lambda>v m. m\<lparr>upvotes := v\<rparr>) metrics;
          metrics = copy_field (k_downvotes solution_dict) (\<lambda>v m. m\<lparr>downvotes := v\<rparr>) metrics;
          metrics = copy_field (k_replies solution_dict) (\<lambda>v m. m\<lparr>reply_count := v\<rparr>) metrics;
          metrics = copy_field (k_is_solved solution_dict) (\<lambda>v m. m\<lparr>is_solved := v\<rparr>) metrics;
          metrics = copy_field (k_platform solution_dict) (\<lambda>v m. m\<lparr>platform := v\<rparr>) metrics;
          metrics = copy_field (k_has_dev_response solution_dict)
                      (\<lambda>v m. m\<lparr>dev_response := v\<rparr>) metrics;
          metrics = copy_field (k_author_badges solution_dict)
                      (\<lambda>v m. m\<lparr>author_badges := v\<rparr>) metrics
      in case k_date solution_dict of
           None \<Rightarrow> metrics
         | Some (DateStr s) \<Rightarrow>
             (case fromisoformat s of
                Inl e \<Rightarrow> metrics
              | Inr d \<Rightarrow> metrics\<lparr>post_date := Some d\<rparr>)
         | Some (DateObj d) \<Rightarrow> metrics\<lparr>post_date := Some d\<rparr>)"

text \<open>\<^verbatim>\<open>solution.get('content', '')\<close>\<close>

definition get_content :: "solution_dict \<Rightarrow> string" where
  "get_content solution = (case k_content solution of None \<Rightarrow> [] | Some c \<Rightarrow> c)"

text \<open>
  \<^verbatim>\<open>rank_solutions\<close> up to the ranked list: the conversion of every dictionary, then
  \<^verbatim>\<open>compare_solutions\<close>.
\<close>

definition rank_solutions :: "(string \<Rightarrow> error + datetime) \<Rightarrow> (nat \<Rightarrow> int) \<Rightarrow> solution_dict list \<Rightarrow> error + ranked_entry list" where
  "rank_solutions fromisoformat clock solutions =
     (let metrics_list =
            map (\<lambda>solution. (dict_to_metrics fromisoformat solution, get_content solution)) solutions
      in compare_solutions clock metrics_list)"

subsection \<open>Badge points, as a sum over the badges\<close>

text \<open>
  The statement of badge scoring to compare the loops with: a badge is worth the points of
  the first key of \<^verbatim>\<open>badge_scores\<close>, in the order of the table, that occurs in the lowered
  badge, and nothing when no key occurs.
\<close>

definition first_match_points :: "string \<Rightarrow> int" where
  "first_match_points badge =
     (case find (\<lambda>(key, points). py_in key (str_lower badge)) badge_scores of
        None \<Rightarrow> 0
      | Some (key, points) \<Rightarrow> points)"

section \<open>Properties\<close>

subsection \<open>Auxiliary facts about the scorers\<close>

lemma py_truediv_max: "py_truediv a (max 1 b) = Inr (real_of_int a / real_of_int (max 1 b))"
  by (simp add: py_truediv_def max_def)

lemma vote_ratio_block_Inr:
  "vote_ratio_block m =
     Inr (if upvotes m > 0
          then ratio_points (real_of_int (upvotes m) / real_of_int (max 1 (upvotes m + downvotes m)))
          else 0)"
  by (simp add: vote_ratio_block_def py_truediv_max)

lemma ratio_points_bounds: "10 \<le> ratio_points r \<and> ratio_points r \<le> 30"
  by (simp add: ratio_points_def)

lemma upvote_points_bounds: "0 \<le> upvote_points u \<and> upvote_points u \<le> 20"
  by (simp add: upvote_points_def)

lemma reply_points_bounds: "0 \<le> reply_points n \<and> reply_points n \<le> 15"
  by (simp add: reply_points_def)

lemma view_points_bounds: "0 \<le> view_points n \<and> view_points n \<le> 5"
  by (simp add: view_points_def)

lemma score_community_validation_Inr:
  "score_community_validation m =
     Inr (min ((if upvotes m > 0
                then ratio_points (real_of_int (upvotes m) / real_of_int (max 1 (upvotes m + downvotes m)))
                else 0)
               + upvote_points (upvotes m) + min (confirmed_working m * 10) 30
               + reply_points (reply_count m) + view_points (view_count m)) 100)"
  by (simp add: score_community_validation_def vote_ratio_block_Inr Let_def)

lemma community_validation_nonneg:
  assumes "0 \<le> confirmed_working m" and "score_community_validation m = Inr cv"
  shows "0 \<le> cv"
proof -
  have "0 \<le> min (confirmed_working m * 10) 30" using assms(1) by simp
  moreover note ratio_points_bounds [of "real_of_int (upvotes m) / real_of_int (max 1 (upvotes m + downvotes m))"]
    upvote_points_bounds [of "upvotes m"] reply_points_bounds [of "reply_count m"]
    view_points_bounds [of "view_count m"]
  ultimately show ?thesis
    using assms(2) unfolding score_community_validation_Inr by (auto split: if_splits)
qed

lemma community_validation_le: "score_community_validation m = Inr cv \<Longrightarrow> cv \<le> 100"
  unfolding score_community_validation_Inr by auto

lemma badge_key_loop_ge:
  "\<forall>(k, p) \<in> set t. 0 \<le> p \<Longrightarrow> s \<le> badge_key_loop t b s"
  by (induction t b s rule: badge_key_loop.induct) auto

lemma badge_scores_nonneg: "\<forall>(k, p) \<in> set badge_scores. 0 \<le> p"
  by (simp add: badge_scores_def)

lemma badge_loop_ge: "s \<le> badge_loop bs s"
proof (induction bs arbitrary: s)
  case Nil
  then show ?case by simp
next
  case (Cons b bs)
  have "s \<le> badge_key_loop badge_scores (str_lower b) s"
    by (rule badge_key_loop_ge [OF badge_scores_nonneg])
  also have "\<dots> \<le> badge_loop bs (badge_key_loop badge_scores (str_lower b) s)"
    by (rule Cons.IH)
  finally show ?case by simp
qed

lemma author_credibility_bounds:
  "0 \<le> score_author_credibility m \<and> score_author_credibility m \<le> 100"
proof -
  have "0 \<le> reputation_points (author_reputation m) + post_count_points (author_post_count m)"
    by (simp add: reputation_points_def post_count_points_def)
  then have "0 \<le> badge_loop (author_badges m)
      (reputation_points (author_reputation m) + post_count_points (author_post_count m))"
    using badge_loop_ge order_trans by blast
  then show ?thesis by (simp add: score_author_credibility_def Let_def)
qed

lemma length_points_bounds: "0 \<le> length_points w \<and> length_points w \<le> 15"
  by (simp add: length_points_def)

lemma score_content_quality_sum:
  "score_content_quality m =
     min ((if has_steps m then 25 else 0) + (if has_screenshots m then 20 else 0)
          + (if has_video m then 15 else 0)
          + (if code_blocks m > 0 then min (code_blocks m * 5) 15 else 0)
          + length_points (word_count m) + (if is_solved m then 10 else 0)) 100"
  by (simp add: score_content_quality_def Let_def)

lemma content_quality_bounds:
  "0 \<le> score_content_quality m \<and> score_content_quality m \<le> 100"
proof -
  have "(0::int) \<le> (if has_steps m then 25 else 0)"
    and "(0::int) \<le> (if has_screenshots m then 20 else 0)"
    and "(0::int) \<le> (if has_video m then 15 else 0)"
    and "0 \<le> (if code_blocks m > 0 then min (code_blocks m * 5) 15 else 0)"
    and "(0::int) \<le> (if is_solved m then 10 else 0)"
    by simp_all
  moreover have "0 \<le> length_points (word_count m)"
    using length_points_bounds by blast
  ultimately show ?thesis
    unfolding score_content_quality_sum by linarith
qed

lemma official_endorsement_bounds:
  "0 \<le> score_official_endorsement m \<and> score_official_endorsement m \<le> 100"
  by (simp add: score_official_endorsement_def official_endorsement_sum_def Let_def)

lemma detail_words_points_bounds: "0 \<le> detail_words_points w \<and> detail_words_points w \<le> 30"
  by (simp add: detail_words_points_def)

lemma score_detail_level_sum:
  "score_detail_level m =
     min (detail_words_points (word_count m) + (if has_steps m then 30 else 0)
          + (if has_screenshots m \<or> has_video m then 20 else 0)
          + (if code_blocks m > 0 then 20 else 0)) 100"
  by (simp add: score_detail_level_def Let_def)

lemma detail_level_bounds:
  "0 \<le> score_detail_level m \<and> score_detail_level m \<le> 100"
proof -
  have "(0::int) \<le> (if has_steps m then 30 else 0)"
    and "(0::int) \<le> (if has_screenshots m \<or> has_video m then 20 else 0)"
    and "(0::int) \<le> (if code_blocks m > 0 then 20 else 0)"
    by simp_all
  moreover have "0 \<le> detail_words_points (word_count m)"
    using detail_words_points_bounds by blast
  ultimately show ?thesis
    unfolding score_detail_level_sum by linarith
qed

lemma age_points_bounds: "0 \<le> age_points a \<and> age_points a \<le> 100"
  by (simp add: age_points_def)

lemma recency_bounds: "score_recency now m = Inr rc \<Longrightarrow> 0 \<le> rc \<and> rc \<le> 100"
  using age_points_bounds
  by (auto simp: score_recency_def split: option.splits sum.splits)

lemma calculate_score_bounds: "calculate_score now m = Inr s \<Longrightarrow> 0 \<le> s \<and> s \<le> 100"
  by (auto simp: calculate_score_def Let_def split: sum.splits)

lemma score_recency_returns:
  "(\<forall>d. post_date m \<noteq> Some (Aware d)) \<Longrightarrow> \<exists>rc. score_recency now m = Inr rc"
  by (cases "post_date m"; simp add: score_recency_def)
     (metis datetime.exhaust datetime_sub.simps(1) sum.case(2))

lemma platform_total_returns:
  "score_recency now m = Inr rc \<Longrightarrow> \<exists>t. platform_total now m = Inr t"
  by (simp add: platform_total_def score_community_validation_Inr Let_def)

lemma calculate_score_returns:
  "score_recency now m = Inr rc \<Longrightarrow> \<exists>s. calculate_score now m = Inr s"
  using platform_total_returns [of now m rc]
  by (auto simp: calculate_score_def Let_def)

lemmas scorer_defs =
  score_author_credibility_def reputation_points_def post_count_points_def badge_scores_def
  score_community_validation_def vote_ratio_block_def py_truediv_def ratio_points_def
  upvote_points_def reply_points_def view_points_def
  score_content_quality_def length_points_def
  score_official_endorsement_def official_endorsement_sum_def
  score_recency_def age_points_def days_def
  score_detail_level_def detail_words_points_def
  platform_mult_def PLATFORM_TRUST_def str_lower_def lower_char_def
  platform_total_def calculate_score_def default_metrics_def

text \<open>
  \<^verbatim>\<open>_score_community_validation\<close> clamps from above only: a negative \<^verbatim>\<open>confirmed_working\<close>,
  which the annotation \<^verbatim>\<open>int\<close> admits, is multiplied by 10 and added as it is.
\<close>

lemma community_validation_negative_count:
  "score_community_validation (default_metrics\<lparr>confirmed_working := - 1\<rparr>) = Inr (- 10)"
  by (simp add: scorer_defs)

lemma ratio_points_mono: "r1 \<le> r2 \<Longrightarrow> ratio_points r1 \<le> ratio_points r2"
  by (simp add: ratio_points_def)

lemma upvote_points_mono: "u1 \<le> u2 \<Longrightarrow> upvote_points u1 \<le> upvote_points u2"
  by (simp add: upvote_points_def)

lemma ratio_points_top: "1 \<le> r \<Longrightarrow> ratio_points r = 30"
  by (simp add: ratio_points_def)

lemma ratio_negative_downvotes:
  assumes "0 < u" and "d < 0"
  shows "1 \<le> real_of_int u / real_of_int (max 1 (u + d))"
proof -
  have "0 < max 1 (u + d)" and "max 1 (u + d) \<le> u"
    using assms by simp_all
  then show ?thesis
    by (simp add: le_divide_eq)
qed

lemma ratio_mono_upvotes:
  assumes "0 < u1" and "u1 \<le> u2" and "0 \<le> d"
  shows "real_of_int u1 / real_of_int (max 1 (u1 + d)) \<le> real_of_int u2 / real_of_int (max 1 (u2 + d))"
proof -
  have m1: "max 1 (u1 + d) = u1 + d" and m2: "max 1 (u2 + d) = u2 + d"
    using assms by simp_all
  have pos: "0 < real_of_int (u1 + d)" "0 < real_of_int (u2 + d)"
    using assms by simp_all
  have "u1 * d \<le> u2 * d"
    using assms by (simp add: mult_right_mono)
  then have "u1 * (u2 + d) \<le> u2 * (u1 + d)"
    by (simp add: algebra_simps)
  then have "real_of_int u1 * real_of_int (u2 + d) \<le> real_of_int u2 * real_of_int (u1 + d)"
    by (metis of_int_le_iff of_int_mult)
  then show ?thesis
    unfolding m1 m2 using pos by (simp add: pos_divide_le_eq pos_le_divide_eq mult.commute)
qed

lemma vote_ratio_points_mono:
  assumes "u1 \<le> u2"
  shows "(if u1 > 0 then ratio_points (real_of_int u1 / real_of_int (max 1 (u1 + d))) else 0)
       \<le> (if u2 > 0 then ratio_points (real_of_int u2 / real_of_int (max 1 (u2 + d))) else 0)"
proof (cases "u1 > 0")
  case False
  have "0 \<le> ratio_points (real_of_int u2 / real_of_int (max 1 (u2 + d)))"
    using ratio_points_bounds [of "real_of_int u2 / real_of_int (max 1 (u2 + d))"] by simp
  with False show ?thesis by simp
next
  case True
  then have u2: "u2 > 0" using assms by simp
  show ?thesis
  proof (cases "d < 0")
    case True
    have "ratio_points (real_of_int u1 / real_of_int (max 1 (u1 + d))) = 30"
      by (rule ratio_points_top [OF ratio_negative_downvotes [OF \<open>u1 > 0\<close> True]])
    moreover have "ratio_points (real_of_int u2 / real_of_int (max 1 (u2 + d))) = 30"
      by (rule ratio_points_top [OF ratio_negative_downvotes [OF u2 True]])
    ultimately show ?thesis using \<open>u1 > 0\<close> u2 by simp
  next
    case False
    then have "0 \<le> d" by simp
    from ratio_points_mono [OF ratio_mono_upvotes [OF \<open>u1 > 0\<close> assms this]]
    show ?thesis using \<open>u1 > 0\<close> u2 by simp
  qed
qed

lemma sub_scores_contradicted:
  "score_author_credibility (m\<lparr>contradicted := c\<rparr>) = score_author_credibility m"
  "score_community_validation (m\<lparr>contradicted := c\<rparr>) = score_community_validation m"
  "score_content_quality (m\<lparr>contradicted := c\<rparr>) = score_content_quality m"
  "score_official_endorsement (m\<lparr>contradicted := c\<rparr>) = score_official_endorsement m"
  "score_recency now (m\<lparr>contradicted := c\<rparr>) = score_recency now m"
  "score_detail_level (m\<lparr>contradicted := c\<rparr>) = score_detail_level m"
  "platform_mult (m\<lparr>contradicted := c\<rparr>) = platform_mult m"
  by (simp_all add: score_author_credibility_def score_community_validation_Inr
      score_content_quality_sum score_official_endorsement_def official_endorsement_sum_def
      score_recency_def score_detail_level_sum platform_mult_def)

lemma platform_total_contradicted:
  "platform_total now (m\<lparr>contradicted := c\<rparr>) = platform_total now m"
  by (simp add: platform_total_def sub_scores_contradicted cong: sum.case_cong)

lemma platform_total_recency:
  "score_recency now1 m = score_recency now2 m \<Longrightarrow> platform_total now1 m = platform_total now2 m"
  by (simp add: platform_total_def cong: sum.case_cong)

text \<open>
  A record on which every factor scores 100, on the platform with the largest multiplier:
  the total before the penalty is 110.
\<close>

lemma full_marks_steam:
  "platform_total 0 (default_metrics\<lparr>author_reputation := 10001, author_post_count := 1001,
      author_badges := [''developer'', ''moderator''], upvotes := 101, reply_count := 21,
      view_count := 10001, confirmed_working := 3, word_count := 201, has_steps := True, has_screenshots := True,
      has_video := True, code_blocks := 3, is_solved := True, dev_response := True,
      mod_endorsed := True, post_date := Some (Naive 0), platform := ''steam''\<rparr>) = Inr 110"
  by (simp add: scorer_defs)

subsection \<open>Auxiliary facts about badges, batches and external records\<close>

lemma badge_key_loop_find:
  "badge_key_loop t b s =
     s + (case find (\<lambda>(key, points). py_in key b) t of None \<Rightarrow> 0 | Some (key, points) \<Rightarrow> points)"
  by (induction t b s rule: badge_key_loop.induct) auto

lemma badge_loop_sum: "badge_loop bs s = s + sum_list (map first_match_points bs)"
  by (induction bs arbitrary: s) (simp_all add: badge_key_loop_find first_match_points_def)

lemma two_badges: "score_author_credibility (default_metrics\<lparr>author_badges := [''Moderator'', ''Developer'']\<rparr>) = 45"
  by (simp add: scorer_defs)

lemma update_metrics_eq:
  "update_metrics m a =
     m\<lparr>word_count := a_word_count a, has_steps := a_has_steps a,
       has_screenshots := a_has_screenshots a, has_video := a_has_video a,
       code_blocks := a_code_blocks a\<rparr>"
  by (simp add: update_metrics_def)

lemma update_metrics_community:
  "score_community_validation (update_metrics m a) = score_community_validation m"
  by (simp add: update_metrics_eq score_community_validation_Inr)

lemma update_metrics_post_date: "post_date (update_metrics m a) = post_date m"
  by (simp add: update_metrics_eq)

lemma score_loop_entries:
  "score_loop clock i solutions = Inr ranked \<Longrightarrow>
     map entry_metrics ranked = map (\<lambda>(m, c). update_metrics m (analyze_content c)) solutions
     \<and> map entry_content_preview ranked = map (\<lambda>(m, c). content_preview c) solutions
     \<and> (\<forall>j < length ranked.
           calculate_score (clock (i + j)) (entry_metrics (ranked ! j))
             = Inr (entry_score (ranked ! j)))"
proof (induction clock i solutions arbitrary: ranked rule: score_loop.induct)
  case (1 clock i)
  then show ?case by simp
next
  case (2 clock i metrics content solutions)
  let ?m = "update_metrics metrics (analyze_content content)"
  from "2.prems" obtain score rest where
    s: "calculate_score (clock i) ?m = Inr score"
    and r: "score_loop clock (Suc i) solutions = Inr rest"
    and ranked: "ranked = \<lparr>entry_score = score, entry_metrics = ?m,
                   entry_content_preview = content_preview content\<rparr> # rest"
    by (auto simp: Let_def split: sum.splits)
  have IH: "map entry_metrics rest = map (\<lambda>(m, c). update_metrics m (analyze_content c)) solutions
     \<and> map entry_content_preview rest = map (\<lambda>(m, c). content_preview c) solutions
     \<and> (\<forall>j < length rest.
           calculate_score (clock (Suc i + j)) (entry_metrics (rest ! j))
             = Inr (entry_score (rest ! j)))"
    using "2.IH" [OF refl refl s r] .
  have "calculate_score (clock (i + j)) (entry_metrics (ranked ! j)) = Inr (entry_score (ranked ! j))"
    if "j < length ranked" for j
  proof (cases j)
    case 0
    then show ?thesis using s ranked by simp
  next
    case (Suc k)
    then show ?thesis using IH that ranked by simp
  qed
  then show ?case using IH ranked by simp
qed

lemma py_sort_reverse_sorted:
  "sorted_wrt (\<lambda>a b. key a \<ge> key b) (py_sort_reverse key xs)"
proof -
  have "sorted (map (\<lambda>x. - key x) (sort_key (\<lambda>x. - key x) xs))"
    by (rule sorted_sort_key)
  then show ?thesis
    by (simp add: py_sort_reverse_def sorted_map)
qed

lemma py_sort_reverse_stable:
  "filter (\<lambda>x. key x = k) (py_sort_reverse key xs) = filter (\<lambda>x. key x = k) xs"
  using sort_key_stable [of "\<lambda>x. - key x" "- k" xs]
  by (simp add: py_sort_reverse_def)

lemma py_sort_reverse_mset: "mset (py_sort_reverse key xs) = mset xs"
  by (simp add: py_sort_reverse_def)

lemma score_loop_returns:
  "\<forall>(m, c) \<in> set solutions. \<forall>d. post_date m \<noteq> Some (Aware d) \<Longrightarrow>
     \<exists>ranked. score_loop clock i solutions = Inr ranked"
proof (induction solutions arbitrary: i)
  case Nil
  then show ?case by simp
next
  case (Cons p solutions)
  obtain m c where p: "p = (m, c)" by (cases p)
  let ?m = "update_metrics m (analyze_content c)"
  have "\<forall>d. post_date ?m \<noteq> Some (Aware d)"
    using Cons.prems p by (simp add: update_metrics_post_date)
  then obtain rc where "score_recency (clock i) ?m = Inr rc"
    using score_recency_returns by blast
  then obtain s where s: "calculate_score (clock i) ?m = Inr s"
    using calculate_score_returns by blast
  moreover obtain rest where "score_loop clock (Suc i) solutions = Inr rest"
    using Cons.IH [of "Suc i"] Cons.prems by auto
  ultimately show ?case
    using p by (simp add: Let_def)
qed

lemma compare_solutions_returns:
  "\<forall>(m, c) \<in> set solutions. \<forall>d. post_date m \<noteq> Some (Aware d) \<Longrightarrow>
     \<exists>ranked. compare_solutions clock solutions = Inr ranked"
  using score_loop_returns [of solutions clock 0]
  by (auto simp: compare_solutions_def)

lemma copy_field_post_date:
  "(\<And>v m. post_date (setattr v m) = post_date m) \<Longrightarrow>
     post_date (copy_field entry setattr metrics) = post_date metrics"
  by (cases entry) (simp_all add: copy_field_def)

lemma dict_to_metrics_post_date:
  "post_date (dict_to_metrics fromisoformat d) =
     (case k_date d of
        None \<Rightarrow> None
      | Some (DateStr s) \<Rightarrow> (case fromisoformat s of Inl e \<Rightarrow> None | Inr dt \<Rightarrow> Some dt)
      | Some (DateObj dt) \<Rightarrow> Some dt)"
proof -
  have "post_date default_metrics = None"
    by (simp add: default_metrics_def)
  then show ?thesis
    by (simp add: dict_to_metrics_def Let_def copy_field_post_date
        split: option.splits date_value.splits sum.splits)
qed

lemma dict_to_metrics_unparseable_date:
  "fromisoformat s = Inl e \<Longrightarrow>
     post_date (dict_to_metrics fromisoformat (d\<lparr>k_date := Some (DateStr s)\<rparr>)) = None"
  by (simp add: dict_to_metrics_post_date)

lemma score_recency_aware: "post_date m = Some (Aware t) \<Longrightarrow> score_recency now m = Inl TypeError"
  by (simp add: score_recency_def)

lemma calculate_score_aware:
  "post_date m = Some (Aware t) \<Longrightarrow> calculate_score now m = Inl TypeError"
  by (simp add: calculate_score_def platform_total_def score_community_validation_Inr
      score_recency_aware)

lemma score_loop_aware:
  "post_date m = Some (Aware t) \<Longrightarrow> score_loop clock i ((m, c) # solutions) = Inl TypeError"
  by (simp add: calculate_score_aware update_metrics_post_date)

lemma rank_solutions_aware:
  "post_date (dict_to_metrics fromisoformat d) = Some (Aware t) \<Longrightarrow>
     rank_solutions fromisoformat clock (d # ds) = Inl TypeError"
  by (simp add: rank_solutions_def compare_solutions_def score_loop_aware del: score_loop.simps)

lemma rank_solutions_returns:
  assumes "\<forall>d \<in> set ds. \<forall>t. post_date (dict_to_metrics fromisoformat d) \<noteq> Some (Aware t)"
  shows "\<exists>ranked. rank_solutions fromisoformat clock ds = Inr ranked"
proof -
  have "\<forall>(m, c) \<in> set (map (\<lambda>solution. (dict_to_metrics fromisoformat solution, get_content solution)) ds).
          \<forall>t. post_date m \<noteq> Some (Aware t)"
    using assms by auto
  from compare_solutions_returns [OF this] show ?thesis
    by (simp add: rank_solutions_def)
qed

text \<open>Evaluations of the content analysis and of small batches, used by the examples.\<close>

lemmas analysis_defs =
  update_metrics_eq analyze_content_def py_split_def findall_count_def step_patterns_def
  image_indicators_def video_indicators_def confirmation_phrases_def warning_phrases_def
  is_space_def is_digit_def char_matches_def content_preview_def

lemma analyze_empty:
  "analyze_content [] =
     \<lparr>a_word_count = 0, a_has_steps = False, a_has_screenshots = False, a_has_video = False,
      a_code_blocks = 0, a_confirmed_working = 0, a_has_warnings = False\<rparr>"
  by code_simp

lemma analyze_a:
  "analyze_content ''a'' =
     \<lparr>a_word_count = 1, a_has_steps = False, a_has_screenshots = False, a_has_video = False,
      a_code_blocks = 0, a_confirmed_working = 0, a_has_warnings = False\<rparr>"
  by code_simp

lemma analyze_this_worked:
  "analyze_content ''this worked'' =
     \<lparr>a_word_count = 2, a_has_steps = False, a_has_screenshots = False, a_has_video = False,
      a_code_blocks = 0, a_confirmed_working = 1, a_has_warnings = False\<rparr>"
  by code_simp

lemma calc_default_empty:
  "calculate_score 0 (update_metrics default_metrics (analyze_content [])) = Inr 5"
  by (simp add: update_metrics_eq analyze_empty scorer_defs)

lemma calc_dev_empty:
  "calculate_score 0 (update_metrics (default_metrics\<lparr>dev_response := True\<rparr>)
      (analyze_content [])) = Inr 12.5"
  by (simp add: update_metrics_eq analyze_empty scorer_defs)

lemma calc_default_a:
  "calculate_score 0 (update_metrics default_metrics (analyze_content ''a'')) = Inr 5"
  by (simp add: update_metrics_eq analyze_a scorer_defs)

lemma compare_three:
  "compare_solutions (\<lambda>i. 0)
      [(default_metrics, []), (default_metrics, ''a''),
       (default_metrics\<lparr>dev_response := True\<rparr>, [])]
     = Inr [\<lparr>entry_score = 12.5,
              entry_metrics = update_metrics (default_metrics\<lparr>dev_response := True\<rparr>)
                                (analyze_content []),
              entry_content_preview = []\<rparr>,
            \<lparr>entry_score = 5,
              entry_metrics = update_metrics default_metrics (analyze_content []),
              entry_content_preview = []\<rparr>,
            \<lparr>entry_score = 5,
              entry_metrics = update_metrics default_metrics (analyze_content ''a''),
              entry_content_preview = ''a''\<rparr>]"
  by (simp add: compare_solutions_def calc_default_empty calc_dev_empty calc_default_a
      py_sort_reverse_def content_preview_def)

lemma calc_this_worked:
  "calculate_score 0 (update_metrics default_metrics (analyze_content ''this worked'')) = Inr 5"
  by (simp add: update_metrics_eq analyze_this_worked scorer_defs)

lemma compare_this_worked:
  "compare_solutions (\<lambda>i. 0) [(default_metrics, ''this worked'')]
     = Inr [\<lparr>entry_score = 5,
              entry_metrics = update_metrics default_metrics (analyze_content ''this worked''),
              entry_content_preview = ''this worked''\<rparr>]"
  by (simp add: compare_solutions_def calc_this_worked py_sort_reverse_def content_preview_def)

subsection \<open>Ranges of the scores\<close>

text \<open>
  C1. Each factor sub-score that is returned lies in \<open>[0, 100]\<close>, and so does the final score
  that \<^verbatim>\<open>calculate_score\<close> returns after the weighted sum, the platform multiplier and the
  penalty. The upper bounds and the final range hold for every record. The lower bound of the
  community-validation score is that of \<^verbatim>\<open>min(confirmed_working * 10, 30)\<close>, so it is stated
  for a count \<^verbatim>\<open>confirmed_working\<close> that is not negative, as a number of replies is. The
  recency score and the final score are returned unless \<^verbatim>\<open>post_date\<close> is an aware datetime,
  whose subtraction from \<^verbatim>\<open>datetime.now()\<close> raises.
\<close>

theorem scores_in_range:
  "(0 \<le> score_author_credibility m \<and> score_author_credibility m \<le> 100)
   \<and> (\<exists>cv. score_community_validation m = Inr cv \<and> cv \<le> 100
             \<and> (0 \<le> confirmed_working m \<longrightarrow> 0 \<le> cv))
   \<and> (0 \<le> score_content_quality m \<and> score_content_quality m \<le> 100)
   \<and> (0 \<le> score_official_endorsement m \<and> score_official_endorsement m \<le> 100)
   \<and> (\<forall>rc. score_recency now m = Inr rc \<longrightarrow> 0 \<le> rc \<and> rc \<le> 100)
   \<and> (0 \<le> score_detail_level m \<and> score_detail_level m \<le> 100)
   \<and> (\<forall>s. calculate_score now m = Inr s \<longrightarrow> 0 \<le> s \<and> s \<le> 100)
   \<and> ((\<forall>d. post_date m \<noteq> Some (Aware d)) \<longrightarrow>
          (\<exists>rc s. score_recency now m = Inr rc \<and> calculate_score now m = Inr s))"
proof -
  obtain cv where cv: "score_community_validation m = Inr cv"
    using score_community_validation_Inr by blast
  have "cv \<le> 100" "0 \<le> confirmed_working m \<longrightarrow> 0 \<le> cv"
    using cv community_validation_le community_validation_nonneg by blast+
  with cv have community: "\<exists>cv. score_community_validation m = Inr cv \<and> cv \<le> 100
             \<and> (0 \<le> confirmed_working m \<longrightarrow> 0 \<le> cv)"
    by blast
  have returns: "(\<forall>d. post_date m \<noteq> Some (Aware d)) \<longrightarrow>
          (\<exists>rc s. score_recency now m = Inr rc \<and> calculate_score now m = Inr s)"
    using score_recency_returns calculate_score_returns by blast
  have recency: "\<forall>rc. score_recency now m = Inr rc \<longrightarrow> 0 \<le> rc \<and> rc \<le> 100"
    using recency_bounds by blast
  have final: "\<forall>s. calculate_score now m = Inr s \<longrightarrow> 0 \<le> s \<and> s \<le> 100"
    using calculate_score_bounds by blast
  show ?thesis
    using author_credibility_bounds [of m] community content_quality_bounds [of m]
      official_endorsement_bounds [of m] recency detail_level_bounds [of m] final returns
    by blast
qed

theorem scores_in_range_witness:
  "0 \<le> confirmed_working
      (default_metrics\<lparr>author_reputation := 8500, author_badges := [''trusted''],
        upvotes := 156, downvotes := 3, reply_count := 23, confirmed_working := 2,
        word_count := 120, has_steps := True, is_solved := True,
        post_date := Some (Naive 0), platform := ''Steam''\<rparr>)
   \<and> (\<forall>d. post_date
      (default_metrics\<lparr>author_reputation := 8500, author_badges := [''trusted''],
        upvotes := 156, downvotes := 3, reply_count := 23, confirmed_working := 2,
        word_count := 120, has_steps := True, is_solved := True,
        post_date := Some (Naive 0), platform := ''Steam''\<rparr>) \<noteq> Some (Aware d))
   \<and> score_community_validation
      (default_metrics\<lparr>author_reputation := 8500, author_badges := [''trusted''],
        upvotes := 156, downvotes := 3, reply_count := 23, confirmed_working := 2,
        word_count := 120, has_steps := True, is_solved := True,
        post_date := Some (Naive 0), platform := ''Steam''\<rparr>) = Inr 85
   \<and> score_recency (days 10)
      (default_metrics\<lparr>author_reputation := 8500, author_badges := [''trusted''],
        upvotes := 156, downvotes := 3, reply_count := 23, confirmed_working := 2,
        word_count := 120, has_steps := True, is_solved := True,
        post_date := Some (Naive 0), platform := ''Steam''\<rparr>) = Inr 90
   \<and> calculate_score (days 10)
      (default_metrics\<lparr>author_reputation := 8500, author_badges := [''trusted''],
        upvotes := 156, downvotes := 3, reply_count := 23, confirmed_working := 2,
        word_count := 120, has_steps := True, is_solved := True,
        post_date := Some (Naive 0), platform := ''Steam''\<rparr>) = Inr 64.075"
  using scores_in_range [of
      "(default_metrics\<lparr>author_reputation := 8500, author_badges := [''trusted''],
        upvotes := 156, downvotes := 3, reply_count := 23, confirmed_working := 2,
        word_count := 120, has_steps := True, is_solved := True,
        post_date := Some (Naive 0), platform := ''Steam''\<rparr>)" "days 10"]
  by (simp add: scorer_defs)

subsection \<open>Monotonicity of community validation\<close>

text \<open>
  C3. With the downvotes and every other field fixed, raising the upvotes never lowers the
  community-validation sub-score. No bound on the downvotes is needed: with negative
  downvotes the ratio is at least 1 for every positive number of upvotes.
\<close>

theorem community_validation_monotone_in_upvotes:
  assumes "u1 \<le> u2"
  shows "\<exists>a b. score_community_validation (m\<lparr>upvotes := u1\<rparr>) = Inr a
             \<and> score_community_validation (m\<lparr>upvotes := u2\<rparr>) = Inr b \<and> a \<le> b"
proof -
  let ?vr = "\<lambda>u. if u > 0
      then ratio_points (real_of_int u / real_of_int (max 1 (u + downvotes m))) else 0"
  let ?rest = "min (confirmed_working m * 10) 30 + reply_points (reply_count m)
      + view_points (view_count m)"
  let ?total = "\<lambda>u. min (?vr u + upvote_points u + ?rest) 100"
  have "?vr u1 \<le> ?vr u2"
    by (rule vote_ratio_points_mono [OF assms])
  moreover have "upvote_points u1 \<le> upvote_points u2"
    by (rule upvote_points_mono [OF assms])
  ultimately have "?vr u1 + upvote_points u1 + ?rest \<le> ?vr u2 + upvote_points u2 + ?rest"
    by linarith
  then have "?total u1 \<le> ?total u2"
    by (rule min.mono) simp
  moreover have "score_community_validation (m\<lparr>upvotes := u1\<rparr>) = Inr (?total u1)"
    by (simp add: score_community_validation_Inr add.assoc)
  moreover have "score_community_validation (m\<lparr>upvotes := u2\<rparr>) = Inr (?total u2)"
    by (simp add: score_community_validation_Inr add.assoc)
  ultimately show ?thesis by blast
qed

theorem community_validation_monotone_in_upvotes_witness:
  "(5::int) \<le> 50
   \<and> score_community_validation (default_metrics\<lparr>downvotes := 5, upvotes := 5\<rparr>) = Inr 10
   \<and> score_community_validation (default_metrics\<lparr>downvotes := 5, upvotes := 50\<rparr>) = Inr 35"
  using community_validation_monotone_in_upvotes [of 5 50 "default_metrics\<lparr>downvotes := 5\<rparr>"]
  by (simp add: scorer_defs)

subsection \<open>The contradiction penalty\<close>

text \<open>
  C4. The score of a record with \<^verbatim>\<open>contradicted = True\<close> is the clamp of 0.8 times the total
  that the same record reaches before the penalty, and the score of the record with
  \<^verbatim>\<open>contradicted = False\<close> is the clamp of that same total: the factor 0.8 is applied to the
  unclamped total, with no clamp between the platform multiplier and the penalty.
\<close>

theorem contradiction_penalty_before_clamp:
  "calculate_score now (m\<lparr>contradicted := False\<rparr>)
     = map_sum id (\<lambda>total. min (max total 0) 100) (platform_total now m)
   \<and> calculate_score now (m\<lparr>contradicted := True\<rparr>)
     = map_sum id (\<lambda>total. min (max (total * 0.8) 0) 100) (platform_total now m)"
  by (simp add: calculate_score_def platform_total_contradicted split: sum.splits)

subsection \<open>Recency without a date\<close>

text \<open>
  C7. When \<^verbatim>\<open>post_date\<close> is absent the recency sub-score is exactly 50, returned as a value
  and not raised as an error.
\<close>

theorem recency_without_post_date: "score_recency now (m\<lparr>post_date := None\<rparr>) = Inr 50"
  by (simp add: score_recency_def)

subsection \<open>Official endorsement\<close>

text \<open>
  The sum before the clamp of \<^verbatim>\<open>_score_official_endorsement\<close> exceeds 100 for no record.
\<close>

theorem official_endorsement_sum_never_exceeds_100:
  "\<not> (\<exists>m. 100 < official_endorsement_sum m)"
  by (simp add: official_endorsement_sum_def Let_def not_less)

text \<open>
  C8, as amended. The official-endorsement sub-score adds 50 for \<^verbatim>\<open>dev_response\<close>, 30 for
  \<^verbatim>\<open>mod_endorsed\<close> and 20 for \<^verbatim>\<open>is_solved\<close>; the sum is at most 100, so the clamp to 100
  returns it unchanged.
\<close>

theorem official_endorsement_points:
  "official_endorsement_sum m
     = (if dev_response m then 50 else 0) + (if mod_endorsed m then 30 else 0)
       + (if is_solved m then 20 else 0)
   \<and> official_endorsement_sum m \<le> 100
   \<and> score_official_endorsement m = official_endorsement_sum m"
  by (simp add: score_official_endorsement_def official_endorsement_sum_def Let_def)

subsection \<open>Dependence on the clock\<close>

text \<open>
  The same record scored at two readings of the clock, one day and ten days after its
  \<^verbatim>\<open>post_date\<close>, receives two different scores.
\<close>

theorem score_differs_between_clock_readings:
  "calculate_score (days 1) (default_metrics\<lparr>post_date := Some (Naive 0)\<rparr>)
     \<noteq> calculate_score (days 10) (default_metrics\<lparr>post_date := Some (Naive 0)\<rparr>)"
  by (simp add: scorer_defs)

text \<open>
  C6, as amended. \<^verbatim>\<open>calculate_score\<close> takes the current time from \<^verbatim>\<open>datetime.now()\<close> inside
  \<^verbatim>\<open>_score_recency\<close>; the record and that reading determine the score, and the reading enters
  through the recency sub-score alone: two evaluations of a record agree whenever their
  recency sub-scores agree, in particular whenever \<^verbatim>\<open>post_date\<close> is absent.
\<close>

theorem score_depends_on_clock_through_recency_only:
  "(score_recency now1 m = score_recency now2 m \<longrightarrow> calculate_score now1 m = calculate_score now2 m)
   \<and> (post_date m = None \<longrightarrow> calculate_score now1 m = calculate_score now2 m)"
proof -
  have "calculate_score now1 m = calculate_score now2 m"
    if "score_recency now1 m = score_recency now2 m"
    using platform_total_recency [OF that] by (simp add: calculate_score_def)
  moreover have "score_recency now1 m = score_recency now2 m" if "post_date m = None"
    using that by (simp add: score_recency_def)
  ultimately show ?thesis by blast
qed

theorem score_depends_on_clock_through_recency_only_witness:
  "score_recency (days 1) (default_metrics\<lparr>post_date := Some (Naive 0)\<rparr>)
     = score_recency (days 2) (default_metrics\<lparr>post_date := Some (Naive 0)\<rparr>)
   \<and> calculate_score (days 1) (default_metrics\<lparr>post_date := Some (Naive 0)\<rparr>)
     = calculate_score (days 2) (default_metrics\<lparr>post_date := Some (Naive 0)\<rparr>)
   \<and> post_date default_metrics = None
   \<and> calculate_score (days 1) default_metrics = calculate_score (days 400) default_metrics"
  using score_depends_on_clock_through_recency_only
      [of "days 1" "default_metrics\<lparr>post_date := Some (Naive 0)\<rparr>" "days 2"]
    score_depends_on_clock_through_recency_only [of "days 1" default_metrics "days 400"]
  by (simp add: score_recency_def age_points_def days_def default_metrics_def)

subsection \<open>Badges\<close>

text \<open>
  A badge that contains the keywords of two categories, \<^verbatim>\<open>moderator\<close> and \<^verbatim>\<open>developer\<close>,
  adds the 20 points of the first one only: the categories matched by one badge string do not
  stack.
\<close>

theorem badge_categories_do_not_stack:
  "py_in ''moderator'' (str_lower ''Moderator Developer'')
   \<and> py_in ''developer'' (str_lower ''Moderator Developer'')
   \<and> score_author_credibility (default_metrics\<lparr>author_badges := [''Moderator Developer'']\<rparr>) = 20"
  by (simp add: scorer_defs)

text \<open>
  C2, as amended. Each badge string is lowered and tested for the keys of the table as
  substrings, in the order of the table; it contributes the points of the first key it
  contains and nothing more, so its contribution is 0 or one entry of the table. The
  contributions of the badges of the list are added to the reputation and post-count points,
  and the sum is clamped to 100.
\<close>

theorem badge_contributes_first_match_only:
  "score_author_credibility m =
     min (reputation_points (author_reputation m) + post_count_points (author_post_count m)
          + sum_list (map first_match_points (author_badges m))) 100
   \<and> first_match_points badge \<in> insert 0 (snd ` set badge_scores)"
proof -
  have "first_match_points badge \<in> insert 0 (snd ` set badge_scores)"
  proof (cases "find (\<lambda>(key, points). py_in key (str_lower badge)) badge_scores")
    case None
    then show ?thesis by (simp add: first_match_points_def)
  next
    case (Some kp)
    then have "kp \<in> set badge_scores"
      by (metis find_Some_iff nth_mem)
    with Some show ?thesis
      by (auto simp: first_match_points_def split: prod.splits intro: rev_image_eqI)
  qed
  then show ?thesis
    by (simp add: score_author_credibility_def badge_loop_sum)
qed

subsection \<open>Ranking a batch\<close>

text \<open>
  C5. When \<^verbatim>\<open>compare_solutions\<close> returns, its result is the list of scored candidates, taken
  in the order of the input, rearranged so that the scores descend; candidates with the same
  score stand in the order of the input, that is, for every score the candidates with that
  score form the same sequence before and after the sort.
\<close>

theorem compare_solutions_sorted_stable:
  assumes "compare_solutions clock solutions = Inr ranked"
  shows "\<exists>unsorted. score_loop clock 0 solutions = Inr unsorted
      \<and> map entry_metrics unsorted = map (\<lambda>(m, c). update_metrics m (analyze_content c)) solutions
      \<and> map entry_content_preview unsorted = map (\<lambda>(m, c). content_preview c) solutions
      \<and> mset ranked = mset unsorted
      \<and> sorted_wrt (\<lambda>a b. entry_score a \<ge> entry_score b) ranked
      \<and> (\<forall>s. filter (\<lambda>e. entry_score e = s) ranked = filter (\<lambda>e. entry_score e = s) unsorted)"
proof -
  from assms obtain unsorted where
    u: "score_loop clock 0 solutions = Inr unsorted"
    and r: "ranked = py_sort_reverse entry_score unsorted"
    by (auto simp: compare_solutions_def split: sum.splits)
  show ?thesis
    using u score_loop_entries [OF u] py_sort_reverse_sorted [of entry_score unsorted]
      py_sort_reverse_stable [of entry_score _ unsorted] py_sort_reverse_mset [of entry_score unsorted]
    unfolding r by blast
qed

theorem compare_solutions_sorted_stable_witness:
  "\<exists>ranked. compare_solutions (\<lambda>i. 0)
        [(default_metrics, []), (default_metrics, ''a''),
         (default_metrics\<lparr>dev_response := True\<rparr>, [])] = Inr ranked
     \<and> map entry_score ranked = [12.5, 5, 5]
     \<and> map entry_content_preview ranked = [[], [], ''a'']
     \<and> sorted_wrt (\<lambda>a b. entry_score a \<ge> entry_score b) ranked"
  using compare_solutions_sorted_stable [OF compare_three] compare_three
  by simp

text \<open>
  C10. The metrics of every entry that \<^verbatim>\<open>compare_solutions\<close> returns are the metrics of an
  input pair with the five fields \<^verbatim>\<open>word_count\<close>, \<^verbatim>\<open>has_steps\<close>, \<^verbatim>\<open>has_screenshots\<close>, \<^verbatim>\<open>has_video\<close>
  and \<^verbatim>\<open>code_blocks\<close> replaced by the analysis of the content and every other field as
  supplied; \<^verbatim>\<open>confirmed_working\<close> and the community-validation sub-score are those of the
  supplied metrics, whatever the analysis counts. In the example the analysis counts one
  confirmation and the entry keeps the supplied count 0.
\<close>

theorem compare_solutions_backfill_frame:
  assumes "compare_solutions clock solutions = Inr ranked" and "e \<in> set ranked"
  shows "\<exists>m c. (m, c) \<in> set solutions
      \<and> entry_metrics e =
          m\<lparr>word_count := a_word_count (analyze_content c),
            has_steps := a_has_steps (analyze_content c),
            has_screenshots := a_has_screenshots (analyze_content c),
            has_video := a_has_video (analyze_content c),
            code_blocks := a_code_blocks (analyze_content c)\<rparr>
      \<and> confirmed_working (entry_metrics e) = confirmed_working m
      \<and> score_community_validation (entry_metrics e) = score_community_validation m"
proof -
  from assms(1) obtain unsorted where
    u: "score_loop clock 0 solutions = Inr unsorted"
    and r: "ranked = py_sort_reverse entry_score unsorted"
    by (auto simp: compare_solutions_def split: sum.splits)
  have "set ranked = set unsorted"
    unfolding r by (simp add: py_sort_reverse_def)
  with assms(2) have "entry_metrics e \<in> set (map entry_metrics unsorted)"
    by simp
  then have "entry_metrics e \<in> set (map (\<lambda>(m, c). update_metrics m (analyze_content c)) solutions)"
    using score_loop_entries [OF u] by simp
  then obtain m c where mc: "(m, c) \<in> set solutions"
    and e: "entry_metrics e = update_metrics m (analyze_content c)"
    by auto
  have e': "entry_metrics e =
          m\<lparr>word_count := a_word_count (analyze_content c),
            has_steps := a_has_steps (analyze_content c),
            has_screenshots := a_has_screenshots (analyze_content c),
            has_video := a_has_video (analyze_content c),
            code_blocks := a_code_blocks (analyze_content c)\<rparr>"
    unfolding e by (rule update_metrics_eq)
  have cw: "confirmed_working (entry_metrics e) = confirmed_working m"
    unfolding e by (simp add: update_metrics_eq)
  have cv: "score_community_validation (entry_metrics e) = score_community_validation m"
    unfolding e by (rule update_metrics_community)
  show ?thesis
    by (intro exI [of _ m] exI [of _ c] conjI) (rule mc e' cw cv)+
qed

theorem compare_solutions_backfill_frame_witness:
  "a_confirmed_working (analyze_content ''this worked'') = 1
   \<and> (\<exists>e. compare_solutions (\<lambda>i. 0) [(default_metrics, ''this worked'')] = Inr [e]
          \<and> confirmed_working (entry_metrics e) = 0
          \<and> score_community_validation (entry_metrics e) = Inr 0)"
proof -
  let ?e = "\<lparr>entry_score = 5,
              entry_metrics = update_metrics default_metrics (analyze_content ''this worked''),
              entry_content_preview = ''this worked''\<rparr>"
  have "?e \<in> set [?e]" by simp
  from compare_solutions_backfill_frame [OF compare_this_worked this]
  have "confirmed_working (entry_metrics ?e) = confirmed_working default_metrics"
    and "score_community_validation (entry_metrics ?e) = score_community_validation default_metrics"
    by auto
  moreover have "confirmed_working default_metrics = 0"
    by (simp add: default_metrics_def)
  moreover have "score_community_validation default_metrics = Inr 0"
    by (simp add: scorer_defs)
  ultimately show ?thesis
    using compare_this_worked by (simp add: analyze_this_worked)
qed

subsection \<open>Dates of external records\<close>

text \<open>
  C9. The claim is that a date the parser rejects is treated as absent and that no error
  leaves the ranking path. The first part holds (\<open>dict_to_metrics_unparseable_date\<close>), and the
  path returns whenever no date is aware (\<open>rank_solutions_returns\<close>). A date that parses to an
  aware datetime, or an aware datetime passed as such, is stored without an error, and the
  ranking then raises \<^verbatim>\<open>TypeError\<close> in \<^verbatim>\<open>_score_recency\<close>, where it is subtracted from the
  naive \<^verbatim>\<open>datetime.now()\<close>.
\<close>

theorem aware_date_raises_type_error:
  "(fromisoformat s = Inr (Aware t) \<longrightarrow>
      rank_solutions fromisoformat clock (d\<lparr>k_date := Some (DateStr s)\<rparr> # ds) = Inl TypeError)
   \<and> rank_solutions fromisoformat clock (d\<lparr>k_date := Some (DateObj (Aware t))\<rparr> # ds)
       = Inl TypeError"
  by (simp add: rank_solutions_aware dict_to_metrics_post_date)

theorem aware_date_raises_type_error_witness:
  "(\<lambda>s. if s = ''2024-01-15T10:30:00+00:00'' then Inr (Aware 0) else Inl ValueError)
      ''2024-01-15T10:30:00+00:00'' = Inr (Aware 0)
   \<and> rank_solutions
        (\<lambda>s. if s = ''2024-01-15T10:30:00+00:00'' then Inr (Aware 0) else Inl ValueError)
        (\<lambda>i. 0)
        [\<lparr>k_author_reputation = None, k_upvotes = Some 10, k_score = None, k_downvotes = None,
          k_replies = None, k_is_solved = None, k_platform = Some ''reddit'',
          k_has_dev_response = None, k_author_badges = None,
          k_date = Some (DateStr ''2024-01-15T10:30:00+00:00''),
          k_content = Some ''Restart the game.''\<rparr>]
      = Inl TypeError"
  using aware_date_raises_type_error
    [of "\<lambda>s. if s = ''2024-01-15T10:30:00+00:00'' then Inr (Aware 0) else Inl ValueError"
        "''2024-01-15T10:30:00+00:00''" 0 "\<lambda>i. 0"
        "\<lparr>k_author_reputation = None, k_upvotes = Some 10, k_score = None, k_downvotes = None,
          k_replies = None, k_is_solved = None, k_platform = Some ''reddit'',
          k_has_dev_response = None, k_author_badges = None,
          k_date = None,
          k_content = Some ''Restart the game.''\<rparr>" "[]"]
  by simp

end
